theory Spec2Isabelle
  imports Complex_Main "HOL-Library.Sorting_Algorithms" "HOL-Library.List_Lexorder" "HOL-Library.Char_ord"
begin

section \<open>JSON values as the setting registry hands them out\<close>

text \<open>
  Schemas and setting values are parsed JSON. A number is the finite double it parsed to,
  kept as its rational value; an object is the list of its own keys with their values, in
  enumeration order. Where the source reads an object under a fixed key
  (\<open>schema.title\<close>, \<open>schema.properties\<close>, \<open>schema.additionalProperties\<close>,
  \<open>schema['jupyter.lab.setting-deprecated']\<close>), the model looks the key up with
  \<open>map_of\<close>: none of these keys names a member that an object inherits, so the read
  gives the object's own value or \<open>undefined\<close>, which is \<open>None\<close>.
\<close>

datatype json =
    JNull
  | JBool bool
  | JNum rat
  | JStr string
  | JArr "json list"
  | JObj "(string \<times> json) list"

type_synonym json_object = "(string \<times> json) list"

text \<open>The values that \<open>!v\<close> maps to true: undefined, null, false, 0 and the empty string.\<close>

fun falsy :: "json option \<Rightarrow> bool" where
  "falsy None = True"
| "falsy (Some JNull) = True"
| "falsy (Some (JBool b)) = (\<not> b)"
| "falsy (Some (JNum n)) = (n = 0)"
| "falsy (Some (JStr s)) = (s = [])"
| "falsy (Some (JArr xs)) = False"
| "falsy (Some (JObj kvs)) = False"

text \<open>\<open>a || b\<close> on values.\<close>

definition js_or :: "json option \<Rightarrow> json option \<Rightarrow> json option" where
  "js_or a b = (if falsy a then b else a)"

text \<open>The decimal name of an array or string index, as \<open>Object.keys\<close> lists it.\<close>

fun decimal :: "nat \<Rightarrow> string" where
  "decimal n =
     (if n < 10 then [char_of (48 + n)]
      else decimal (n div 10) @ [char_of (48 + n mod 10)])"

text \<open>
  \<open>Object.keys(v)\<close> for a value that is not null or undefined: the own enumerable
  keys of an object, the indices of an array or a string, nothing for a number or a
  boolean.
\<close>

fun Object_keys :: "json option \<Rightarrow> string list" where
  "Object_keys (Some (JObj kvs)) = map fst kvs"
| "Object_keys (Some (JArr xs)) = map decimal [0..<length xs]"
| "Object_keys (Some (JStr s)) = map decimal [0..<length s]"
| "Object_keys v = []"

section \<open>Plugins and the setting registry\<close>

text \<open>
  \<open>ISettingRegistry.IPlugin\<close>: the identifier, the schema, the user and composite
  data and the version. \<open>ISettingRegistry\<close>: the plugins by identifier (a JavaScript
  object, here the list of its entries in the order \<open>Object.keys\<close> yields them) and,
  of the registry's own schema, what the code reads: \<open>registry.schema.properties\<close>,
  which \<open>ISchema\<close> declares as an object of properties that may be missing.
\<close>

record plugin_data =
  composite :: json_object
  user :: json_object

record plugin =
  plugin_id :: string
  schema :: json_object
  data :: plugin_data
  version :: string

record registry =
  plugins :: "(string \<times> plugin) list"
  schema_properties :: "json_object option"

section \<open>Sorting and filtering the plugins\<close>

text \<open>
  The sort key \<open>a.schema.title || a.id\<close>. \<open>ISchema\<close> declares
  \<open>title?: string\<close>: a title is a string or missing, and the key is the title unless
  it is missing or empty.
\<close>

definition typed_title :: "plugin \<Rightarrow> bool" where
  "typed_title p =
     (case map_of (schema p) ''title'' of
        None \<Rightarrow> True
      | Some (JStr t) \<Rightarrow> True
      | Some v \<Rightarrow> False)"

definition title_or_id :: "plugin \<Rightarrow> string" where
  "title_or_id p =
     (case js_or (map_of (schema p) ''title'') (Some (JStr (plugin_id p))) of
        Some (JStr t) \<Rightarrow> t
      | v \<Rightarrow> plugin_id p)"

text \<open>
  \<open>PluginList.sortPlugins\<close>. \<open>localeCompare\<close> belongs to the host's locale: it is a
  parameter, a comparator on strings (negative, zero and positive are \<open>Less\<close>,
  \<open>Equiv\<close> and \<open>Greater\<close>). \<open>Array.prototype.sort\<close> is the stable sort
  of the language.
\<close>

definition sortPlugins :: "string comparator \<Rightarrow> registry \<Rightarrow> plugin list" where
  "sortPlugins localeCompare registry =
     Sorting_Algorithms.sort (key title_or_id localeCompare) (map snd (plugins registry))"

text \<open>
  The filter that \<open>PluginList\<close>, the form-based \<open>PluginEditor\<close> and
  \<open>SimpleSettingsEditor\<close> each apply to the sorted plugins.
\<close>

definition plugin_filter :: "plugin \<Rightarrow> bool" where
  "plugin_filter plugin =
     (let deprecated = (map_of (schema plugin) ''jupyter.lab.setting-deprecated'' = Some (JBool True));
          editable = (length (Object_keys (js_or (map_of (schema plugin) ''properties'') (Some (JObj [])))) > 0);
          extensible = (map_of (schema plugin) ''additionalProperties'' \<noteq> Some (JBool False))
      in \<not> deprecated \<and> (editable \<or> extensible))"

section \<open>Rendering hints\<close>

text \<open>
  \<open>getHint\<close> reads objects under a key that its caller chooses. Such a read gives
  the object's own value when it has the key, and otherwise what the object inherits under
  that name from \<open>Object.prototype\<close>: a function, or the prototype itself for
  \<open>__proto__\<close>. The result of a read is therefore undefined, a JSON value, or a
  native value, which is truthy and whose type is not string.
\<close>

datatype js_value = Undefined | Data json | Native

fun falsy_value :: "js_value \<Rightarrow> bool" where
  "falsy_value Undefined = True"
| "falsy_value (Data j) = falsy (Some j)"
| "falsy_value Native = False"

text \<open>\<open>a && b\<close> on the results of reads.\<close>

definition js_and :: "js_value \<Rightarrow> js_value \<Rightarrow> js_value" where
  "js_and a b = (if falsy_value a then a else b)"

text \<open>The members of \<open>Object.prototype\<close>.\<close>

definition Object_prototype :: "string list" where
  "Object_prototype =
     [''constructor'', ''hasOwnProperty'', ''isPrototypeOf'', ''propertyIsEnumerable'',
      ''toLocaleString'', ''toString'', ''valueOf'', ''__defineGetter__'', ''__defineSetter__'',
      ''__lookupGetter__'', ''__lookupSetter__'', ''__proto__'']"

text \<open>\<open>obj[name]\<close> for an object of parsed JSON.\<close>

definition read_member :: "json_object \<Rightarrow> string \<Rightarrow> js_value" where
  "read_member obj name =
     (case map_of obj name of
        Some v \<Rightarrow> Data v
      | None \<Rightarrow> if name \<in> set Object_prototype then Native else Undefined)"

text \<open>
  \<open>v.default\<close> for a value that is not null or undefined. No prototype has a member
  of this name and it is no index, so only an object that has the key itself gives a value.
\<close>

fun read_default :: "js_value \<Rightarrow> js_value" where
  "read_default (Data (JObj kvs)) = (case map_of kvs ''default'' of Some v \<Rightarrow> Data v | None \<Rightarrow> Undefined)"
| "read_default v = Undefined"

text \<open>
  \<open>PluginList.getHint\<close>, statement by statement; \<open>name\<close> is the source's parameter
  \<open>key\<close>. The last step is
  \<open>properties && properties[key] && properties[key].default\<close>: missing properties
  are undefined, which ends the chain, and properties that are there are an object, which
  is truthy.
\<close>

definition registry_default :: "string \<Rightarrow> registry \<Rightarrow> js_value" where
  "registry_default name registry =
     (case schema_properties registry of
        None \<Rightarrow> Undefined
      | Some properties \<Rightarrow>
          js_and (read_member properties name) (read_default (read_member properties name)))"

text \<open>The value \<open>getHint\<close> returns: the hint when its type is string, the empty string otherwise.\<close>

definition string_or_empty :: "js_value \<Rightarrow> string" where
  "string_or_empty hint = (case hint of Data (JStr s) \<Rightarrow> s | v \<Rightarrow> [])"

definition getHint :: "string \<Rightarrow> registry \<Rightarrow> plugin \<Rightarrow> string" where
  "getHint name registry plugin =
     (let hint = read_member (user (data plugin)) name;
          hint = (if falsy_value hint then read_member (composite (data plugin)) name else hint);
          hint = (if falsy_value hint then read_member (schema plugin) name else hint);
          hint = (if falsy_value hint then registry_default name registry else hint)
      in string_or_empty hint)"

section \<open>Promises\<close>

text \<open>
  The handlers are run to completion on a single thread. A promise is modelled by how it
  settles: with a value, with a rejection (the reason's message), or never.
\<close>

datatype 'a promise = Resolved 'a | Rejected string | Pending

section \<open>The plugin list\<close>

text \<open>
  \<open>Settings\<close>, as \<open>registry.load\<close> resolves it: the code reads the list of
  modified fields only.
\<close>

record settings =
  settings_id :: string
  modifiedFields :: "string list"

text \<open>
  The private fields of \<open>PluginList\<close> (\<open>_allPlugins\<close>, \<open>_modifiedPlugins\<close>,
  \<open>_scrollTop\<close>, \<open>_selection\<close>) and what the widget has done so far: the number of
  emissions of the \<open>changed\<close> signal, the number of calls of \<open>update()\<close> (each
  posts an update request, which renders), the values assigned to the \<open>scrollTop\<close>
  of the list element, and the number of renderings.
\<close>

record plugin_list =
  priv_allPlugins :: "plugin list"
  priv_modifiedPlugins :: "plugin list"
  priv_scrollTop :: "rat option"
  priv_selection :: string
  changed_emitted :: nat
  update_posted :: nat
  ul_scrollTop_assigned :: "rat list"
  rendered :: nat

text \<open>The constructor and the field initialisers.\<close>

definition PluginList_new :: "string comparator \<Rightarrow> registry \<Rightarrow> plugin_list" where
  "PluginList_new localeCompare registry =
     \<lparr> priv_allPlugins = filter plugin_filter (sortPlugins localeCompare registry),
       priv_modifiedPlugins = [],
       priv_scrollTop = Some 0,
       priv_selection = [],
       changed_emitted = 0,
       update_posted = 0,
       ul_scrollTop_assigned = [],
       rendered = 0 \<rparr>"

definition update :: "plugin_list \<Rightarrow> plugin_list" where
  "update s = s\<lparr>update_posted := update_posted s + 1\<rparr>"

text \<open>The setter of \<open>selection\<close>.\<close>

definition set_selection :: "string \<Rightarrow> plugin_list \<Rightarrow> plugin_list" where
  "set_selection selection s = update (s\<lparr>priv_selection := selection\<rparr>)"

text \<open>
  \<open>updateModifiedPlugins\<close>. The first loop awaits \<open>registry.load(plugin.id)\<close> for
  one plugin after the other; \<open>loaded\<close> is the list of the identifiers it has asked
  the registry for. A load that rejects makes the \<open>await\<close> throw, which ends the
  function with that rejection; one that never settles leaves it waiting.
\<close>

fun load_modified ::
  "(string \<Rightarrow> settings promise) \<Rightarrow> plugin list \<Rightarrow> plugin list \<Rightarrow> string list
     \<Rightarrow> plugin list promise \<times> string list" where
  "load_modified load [] modifiedPlugins loaded = (Resolved modifiedPlugins, loaded)"
| "load_modified load (plugin # rest) modifiedPlugins loaded =
     (case load (plugin_id plugin) of
        Resolved settings \<Rightarrow>
          load_modified load rest
            (if length (modifiedFields settings) > 0 then modifiedPlugins @ [plugin]
             else modifiedPlugins)
            (loaded @ [plugin_id plugin])
      | Rejected reason \<Rightarrow> (Rejected reason, loaded @ [plugin_id plugin])
      | Pending \<Rightarrow> (Pending, loaded @ [plugin_id plugin]))"

text \<open>
  The rest of the function runs without an \<open>await\<close>: it replaces
  \<open>_modifiedPlugins\<close> and calls \<open>update()\<close> when the lengths differ or when a
  newly found plugin has no entry with its identifier in the old list.
\<close>

definition updateModifiedPlugins ::
  "(string \<Rightarrow> settings promise) \<Rightarrow> plugin_list \<Rightarrow> unit promise \<times> string list \<times> plugin_list" where
  "updateModifiedPlugins load s =
     (case load_modified load (priv_allPlugins s) [] [] of
        (Resolved modifiedPlugins, loaded) \<Rightarrow>
          if length (priv_modifiedPlugins s) \<noteq> length modifiedPlugins
          then (Resolved (), loaded, update (s\<lparr>priv_modifiedPlugins := modifiedPlugins\<rparr>))
          else if list_ex
                    (\<lambda>plugin. find (\<lambda>p. plugin_id p = plugin_id plugin) (priv_modifiedPlugins s) = None)
                    modifiedPlugins
          then (Resolved (), loaded, update (s\<lparr>priv_modifiedPlugins := modifiedPlugins\<rparr>))
          else (Resolved (), loaded, s)
      | (Rejected reason, loaded) \<Rightarrow> (Rejected reason, loaded, s)
      | (Pending, loaded) \<Rightarrow> (Pending, loaded, s))"

text \<open>
  \<open>onUpdateRequest\<close>: the promise of \<open>updateModifiedPlugins\<close> is dropped
  (\<open>void\<close>), the stored scroll offset is written back when the list element exists
  (\<open>ul\<close>) and the offset is defined, and the widget renders. The fields the three steps
  touch are disjoint, so their order does not show in the result.
\<close>

definition onUpdateRequest ::
  "(string \<Rightarrow> settings promise) \<Rightarrow> bool \<Rightarrow> plugin_list \<Rightarrow> string list \<times> plugin_list" where
  "onUpdateRequest load ul s =
     (case updateModifiedPlugins load s of
        (dropped, loaded, s1) \<Rightarrow>
          let s2 = (case priv_scrollTop s1 of
                      Some offset \<Rightarrow>
                        if ul then s1\<lparr>ul_scrollTop_assigned := ul_scrollTop_assigned s1 @ [offset]\<rparr>
                        else s1
                    | None \<Rightarrow> s1)
          in (loaded, s2\<lparr>rendered := rendered s2 + 1\<rparr>))"

text \<open>
  A mousedown event on the widget's node: the \<open>data-id\<close> attribute of the target
  (\<open>None\<close> when the element has none: \<open>getAttribute\<close> returns null) and those of
  its ancestors, from the parent of the target up to the widget's node. The list is empty
  when the target is the node itself.
\<close>

record mouse_event =
  target_data_id :: "string option"
  ancestor_data_ids :: "string option list"

definition no_id :: "string option \<Rightarrow> bool" where
  "no_id a = (case a of None \<Rightarrow> True | Some i \<Rightarrow> i = [])"

text \<open>The \<open>while\<close> loop: up the ancestors until an identifier is found or the node is reached.\<close>

fun walk_up :: "string option \<Rightarrow> string option list \<Rightarrow> string option" where
  "walk_up a [] = a"
| "walk_up a (parent # ancestors) = (if no_id a then walk_up parent ancestors else a)"

text \<open>
  The first half of \<open>_evtMousedown\<close>: the identifier that is passed to the confirmation
  function, or \<open>None\<close> when the handler returns before it.
\<close>

definition mousedown_id :: "string \<Rightarrow> mouse_event \<Rightarrow> string option" where
  "mousedown_id selection event =
     (let a = target_data_id event in
      if a = Some selection then None
      else let a = (if no_id a then walk_up a (ancestor_data_ids event) else a)
           in if no_id a then None else a)"

text \<open>
  \<open>_evtMousedown\<close>. \<open>confirm\<close> is the function given to the constructor;
  \<open>scrollTop\<close> is what the getter of that name reads from the list element at the time
  the promise resolves. Rejection and a promise that never settles leave the widget as it
  is. The handler and the continuation of its promise are taken as one step: the list is not
  touched by another handler in between.
\<close>

definition evtMousedown ::
  "(string \<Rightarrow> unit promise) \<Rightarrow> rat option \<Rightarrow> mouse_event \<Rightarrow> plugin_list \<Rightarrow> plugin_list" where
  "evtMousedown confirm scrollTop event s =
     (case mousedown_id (priv_selection s) event of
        None \<Rightarrow> s
      | Some i \<Rightarrow>
          (case confirm i of
             Resolved u \<Rightarrow>
               update (s\<lparr>priv_scrollTop := scrollTop,
                          priv_selection := i,
                          changed_emitted := changed_emitted s + 1\<rparr>)
           | Rejected reason \<Rightarrow> s
           | Pending \<Rightarrow> s))"

section \<open>Dialogs\<close>

text \<open>
  \<open>showDialog\<close> belongs to the host: it is a parameter that takes the dialog and
  gives the promise of the button the user chose. \<open>Dialog.okButton\<close> makes an
  accepting button, \<open>Dialog.cancelButton\<close> a declining one.
\<close>

record dialog_button =
  label :: string
  accept :: bool

record dialog =
  title :: string
  body :: string
  buttons :: "dialog_button list"

record dialog_result =
  button :: dialog_button

definition okButton :: "string \<Rightarrow> dialog_button" where
  "okButton l = \<lparr>label = l, accept = True\<rparr>"

definition cancelButton :: "string \<Rightarrow> dialog_button" where
  "cancelButton l = \<lparr>label = l, accept = False\<rparr>"

section \<open>The plugin editors\<close>

text \<open>What both editors read of the \<open>Widget\<close> they extend.\<close>

record widget =
  isHidden :: bool
  isAttached :: bool

text \<open>
  The dialog of both \<open>confirm\<close> methods; \<open>tr\<close> is the lookup \<open>__\<close> of the
  translation bundle \<open>_trans\<close>.
\<close>

definition unsaved_dialog :: "(string \<Rightarrow> string) \<Rightarrow> dialog" where
  "unsaved_dialog tr =
     \<lparr> title = tr ''You have unsaved changes.'',
       body = tr ''Do you want to leave without saving?'',
       buttons = [cancelButton (tr ''Cancel''), okButton (tr ''Ok'')] \<rparr>"

text \<open>
  The continuation both methods chain to the dialog: it throws when the chosen button does
  not accept, which rejects the promise that \<open>confirm\<close> returns.
\<close>

definition leave_or_cancel :: "dialog_result promise \<Rightarrow> unit promise" where
  "leave_or_cancel answer =
     (case answer of
        Resolved result \<Rightarrow>
          if \<not> accept (button result) then Rejected ''User canceled.'' else Resolved ()
      | Rejected reason \<Rightarrow> Rejected reason
      | Pending \<Rightarrow> Pending)"

subsection \<open>The raw editor\<close>




subsection \<open>The form-based editor\<close>

text \<open>
  \<open>PluginEditor\<close> over one \<open>SettingsFormEditorWidget\<close> for each plugin:
  \<open>editors\<close> holds the plugin of each. \<open>confirm\<close> gives the editor whose node it
  has scrolled into view, the dialogs it has shown and its promise.
\<close>

record form_plugin_editor = widget +
  editors :: "plugin list"

text \<open>The constructor: one editor for each plugin that passes the filter; a new widget is neither hidden nor attached.\<close>

definition PluginEditor_new :: "string comparator \<Rightarrow> registry \<Rightarrow> form_plugin_editor" where
  "PluginEditor_new localeCompare registry =
     \<lparr> isHidden = False,
       isAttached = False,
       editors = filter plugin_filter (sortPlugins localeCompare registry) \<rparr>"

definition form_isDirty :: "form_plugin_editor \<Rightarrow> bool" where
  "form_isDirty e = False"

definition form_confirm ::
  "(string \<Rightarrow> string) \<Rightarrow> (dialog \<Rightarrow> dialog_result promise) \<Rightarrow> string \<Rightarrow> form_plugin_editor
     \<Rightarrow> plugin option \<times> dialog list \<times> unit promise" where
  "form_confirm tr showDialog i e =
     (let editor = find (\<lambda>editor. plugin_id editor = i) (editors e) in
      if isHidden e \<or> \<not> isAttached e \<or> \<not> form_isDirty e then (editor, [], Resolved ())
      else (editor, [unsaved_dialog tr], leave_or_cancel (showDialog (unsaved_dialog tr))))"

section \<open>The simple settings editor\<close>

text \<open>
  \<open>SimpleSettingsEditor\<close> holds the \<open>PluginList\<close> that its constructor makes
  (the field \<open>_list\<close>, of type \<open>any\<close>). Besides it, the editor's state is whether
  \<open>Widget.onCloseRequest\<close> has run (which closes the panel) and the dialogs shown so
  far.
\<close>

record simple_settings_editor =
  priv_list :: plugin_list
  panel_closed :: bool
  dialogs_shown :: "dialog list"

definition SimpleSettingsEditor_new :: "string comparator \<Rightarrow> registry \<Rightarrow> simple_settings_editor" where
  "SimpleSettingsEditor_new localeCompare registry =
     \<lparr> priv_list = PluginList_new localeCompare registry,
       panel_closed = False,
       dialogs_shown = [] \<rparr>"

text \<open>
  \<open>this._list.hasErrors\<close>. \<open>PluginList\<close> declares the members \<open>registry\<close>,
  \<open>changed\<close>, \<open>scrollTop\<close>, \<open>selection\<close>, \<open>handleEvent\<close>,
  \<open>getHint\<close>, \<open>mapPlugins\<close>, \<open>render\<close> and its protected and private
  ones; none is named \<open>hasErrors\<close>, and none \<open>setError\<close>, which the constructor
  hands to the settings panel as its error callback; the widget classes it extends have
  neither. The read gives undefined, whatever the list holds.
\<close>

definition PluginList_hasErrors :: "plugin_list \<Rightarrow> json option" where
  "PluginList_hasErrors l = None"

definition Widget_onCloseRequest :: "simple_settings_editor \<Rightarrow> simple_settings_editor" where
  "Widget_onCloseRequest s = s\<lparr>panel_closed := True\<rparr>"

text \<open>
  The dialog of \<open>onCloseRequest\<close> has the two buttons without options; their labels
  are the host's defaults and play no part.
\<close>

definition close_dialog :: dialog where
  "close_dialog =
     \<lparr> title = ''Unsaved changes due to validation error. Continue without saving?'',
       body = [],
       buttons = [okButton ''Ok'', cancelButton ''Cancel''] \<rparr>"

definition onCloseRequest ::
  "(dialog \<Rightarrow> dialog_result promise) \<Rightarrow> simple_settings_editor \<Rightarrow> simple_settings_editor" where
  "onCloseRequest showDialog s =
     (if \<not> falsy (PluginList_hasErrors (priv_list s)) then
        (let s1 = s\<lparr>dialogs_shown := dialogs_shown s @ [close_dialog]\<rparr> in
         case showDialog close_dialog of
           Resolved v \<Rightarrow> if accept (button v) then Widget_onCloseRequest s1 else s1
         | Rejected reason \<Rightarrow> s1
         | Pending \<Rightarrow> s1)
      else Widget_onCloseRequest s)"

section \<open>The statements of the specification\<close>

text \<open>
  The specification's conditions on a plugin: its schema marks it deprecated; its
  \<open>properties\<close> have at least one key; its \<open>additionalProperties\<close> is not false.
\<close>

definition spec_deprecated :: "plugin \<Rightarrow> bool" where
  "spec_deprecated p = (map_of (schema p) ''jupyter.lab.setting-deprecated'' = Some (JBool True))"

definition spec_editable :: "plugin \<Rightarrow> bool" where
  "spec_editable p = (Object_keys (map_of (schema p) ''properties'') \<noteq> [])"

definition spec_extensible :: "plugin \<Rightarrow> bool" where
  "spec_extensible p = (map_of (schema p) ''additionalProperties'' \<noteq> Some (JBool False))"

text \<open>
  The four places a hint can come from, in the order of priority: the user's value, the
  composite value, the top-level key of the plugin's schema, the default of the property
  in the registry's schema; each is what the read under the key gives.
\<close>

definition hint_candidates :: "string \<Rightarrow> registry \<Rightarrow> plugin \<Rightarrow> js_value list" where
  "hint_candidates name registry plugin =
     [ read_member (user (data plugin)) name,
       read_member (composite (data plugin)) name,
       read_member (schema plugin) name,
       (case schema_properties registry of
          None \<Rightarrow> Undefined
        | Some properties \<Rightarrow> read_default (read_member properties name)) ]"

definition is_string :: "js_value \<Rightarrow> bool" where
  "is_string v = (case v of Data (JStr s) \<Rightarrow> True | w \<Rightarrow> False)"

text \<open>
  The hint as the specification words it: the candidate of highest priority that is a
  string, and the empty string when none is.
\<close>

definition spec_getHint :: "string \<Rightarrow> registry \<Rightarrow> plugin \<Rightarrow> string" where
  "spec_getHint name registry plugin =
     (case find is_string (hint_candidates name registry plugin) of
        Some hint \<Rightarrow> string_or_empty hint
      | None \<Rightarrow> [])"

text \<open>The sort key as the specification words it, \<open>title ?? id\<close>: the title unless it is missing or null.\<close>

definition spec_sort_key :: "plugin \<Rightarrow> string" where
  "spec_sort_key p =
     (case map_of (schema p) ''title'' of
        Some (JStr t) \<Rightarrow> t
      | v \<Rightarrow> plugin_id p)"

text \<open>
  The specification's data model: the composite data are the user's values folded onto the
  defaults, so every key of the user's data has the user's value in the composite data.
\<close>

definition composite_folds_user :: "plugin \<Rightarrow> bool" where
  "composite_folds_user p =
     list_all (\<lambda>k. map_of (composite (data p)) k = map_of (user (data p)) k)
       (map fst (user (data p)))"

text \<open>How a load settled: with settings, and with settings that report a modified field.\<close>

definition is_resolved :: "'a promise \<Rightarrow> bool" where
  "is_resolved r = (case r of Resolved v \<Rightarrow> True | Rejected reason \<Rightarrow> False | Pending \<Rightarrow> False)"

definition reports_modified :: "settings promise \<Rightarrow> bool" where
  "reports_modified r =
     (case r of Resolved st \<Rightarrow> modifiedFields st \<noteq> [] | Rejected reason \<Rightarrow> False | Pending \<Rightarrow> False)"

text \<open>
  The invariant of the plugin list that the comparison at the end of
  \<open>updateModifiedPlugins\<close> rests on: \<open>_modifiedPlugins\<close> holds, in the order of
  \<open>_allPlugins\<close>, the plugins whose identifier occurs in it. It holds of a new list and
  every method keeps it.
\<close>

definition modified_by_id :: "plugin_list \<Rightarrow> bool" where
  "modified_by_id s =
     (priv_modifiedPlugins s =
        filter (\<lambda>p. plugin_id p \<in> plugin_id ` set (priv_modifiedPlugins s)) (priv_allPlugins s))"

section \<open>Concrete inputs\<close>

definition make_plugin :: "string \<Rightarrow> json_object \<Rightarrow> json_object \<Rightarrow> json_object \<Rightarrow> plugin" where
  "make_plugin i sch usr cmps =
     \<lparr> plugin_id = i, schema = sch, data = \<lparr>composite = cmps, user = usr\<rparr>, version = ''1.0.0'' \<rparr>"

definition make_registry :: "plugin list \<Rightarrow> json_object option \<Rightarrow> registry" where
  "make_registry ps props = \<lparr> plugins = map (\<lambda>p. (plugin_id p, p)) ps, schema_properties = props \<rparr>"

text \<open>Three plugins: one that is kept, a deprecated one, and one that can be neither edited nor extended.\<close>

definition plugin_kept :: plugin where
  "plugin_kept =
     make_plugin ''ext:kept''
       [(''title'', JStr ''Kept''), (''properties'', JObj [(''x'', JObj [(''type'', JStr ''string'')])]),
        (''additionalProperties'', JBool False)] [] []"

definition plugin_deprecated :: plugin where
  "plugin_deprecated =
     make_plugin ''ext:old''
       [(''title'', JStr ''Old''), (''jupyter.lab.setting-deprecated'', JBool True),
        (''properties'', JObj [(''x'', JObj [])])] [] []"

definition plugin_closed :: plugin where
  "plugin_closed =
     make_plugin ''ext:closed''
       [(''title'', JStr ''Closed''), (''properties'', JObj []), (''additionalProperties'', JBool False)] [] []"

text \<open>Two plugins for the sort: the first has the empty title, the second has none.\<close>

definition plugin_b :: plugin where
  "plugin_b = make_plugin ''b'' [(''title'', JStr [])] [] []"

definition plugin_a :: plugin where
  "plugin_a = make_plugin ''a'' [] [] []"

text \<open>
  A plugin whose user sets the icon hint to the empty string, which the composite data
  take over, while the schema names an icon; the same plugin with the user's value
  \<open>true\<close>; and a registry whose schema gives a default for the icon label.
\<close>

definition plugin_hint :: plugin where
  "plugin_hint =
     make_plugin ''ext:hint'' [(''jupyter.lab.setting-icon'', JStr ''schema-icon'')]
       [(''jupyter.lab.setting-icon'', JStr [])]
       [(''jupyter.lab.setting-icon'', JStr [])]"

definition plugin_hint_true :: plugin where
  "plugin_hint_true =
     make_plugin ''ext:hint'' [(''jupyter.lab.setting-icon'', JStr ''schema-icon'')]
       [(''jupyter.lab.setting-icon'', JBool True)]
       [(''jupyter.lab.setting-icon'', JBool True)]"

definition registry_hints :: registry where
  "registry_hints =
     make_registry [plugin_hint]
       (Some [(''jupyter.lab.setting-icon-label'', JObj [(''default'', JStr ''Settings'')])])"

text \<open>A registry that answers for \<open>a\<close> with a rejection and for every other plugin with one modified field.\<close>

definition load_a_fails :: "string \<Rightarrow> settings promise" where
  "load_a_fails i =
     (if i = ''a'' then Rejected ''no such plugin''
      else Resolved \<lparr>settings_id = i, modifiedFields = [''x'']\<rparr>)"


definition list_ab :: plugin_list where
  "list_ab =
     \<lparr> priv_allPlugins = [plugin_a, plugin_b],
       priv_modifiedPlugins = [],
       priv_scrollTop = Some 0,
       priv_selection = [],
       changed_emitted = 0,
       update_posted = 0,
       ul_scrollTop_assigned = [],
       rendered = 0 \<rparr>"



text \<open>
  A click on the label inside the list item of plugin \<open>b\<close> (the \<open>span\<close> that
  \<open>mapPlugins\<close> puts into the item has no \<open>data-id\<close>), and a click on the
  item itself.
\<close>

definition click_b :: mouse_event where
  "click_b = \<lparr> target_data_id = None, ancestor_data_ids = [Some ''b'', None, None] \<rparr>"


definition answer_with :: "bool \<Rightarrow> dialog \<Rightarrow> dialog_result promise" where
  "answer_with a d = Resolved \<lparr>button = \<lparr>label = (if a then ''Ok'' else ''Cancel''), accept = a\<rparr>\<rparr>"

section \<open>Selecting a plugin in the list\<close>

lemma mousedown_id_click_b: "mousedown_id (priv_selection list_ab) click_b = Some ''b''"
  by (simp add: mousedown_id_def list_ab_def click_b_def no_id_def)

text \<open>
  C1. A mousedown selects plugin \<open>i\<close> and the confirmation promise rejects: the
  handler leaves the plugin list exactly as it was. The selection, the stored scroll offset
  and every other field keep their values, and the \<open>changed\<close> signal is not emitted.
\<close>

theorem rejected_confirmation_leaves_list_unchanged:
  assumes "mousedown_id (priv_selection s) event = Some i"
    and "confirm i = Rejected reason"
  shows "evtMousedown confirm scrollTop event s = s
    \<and> priv_selection (evtMousedown confirm scrollTop event s) = priv_selection s
    \<and> priv_scrollTop (evtMousedown confirm scrollTop event s) = priv_scrollTop s
    \<and> changed_emitted (evtMousedown confirm scrollTop event s) = changed_emitted s"
  using assms by (simp add: evtMousedown_def)

theorem rejected_confirmation_witness:
  "mousedown_id (priv_selection list_ab) click_b = Some ''b''
   \<and> evtMousedown (\<lambda>i. Rejected ''declined'') (Some 12) click_b list_ab = list_ab"
  using mousedown_id_click_b
    rejected_confirmation_leaves_list_unchanged
      [OF mousedown_id_click_b, of "\<lambda>i. Rejected ''declined''" "''declined''" "Some 12"]
  by simp

text \<open>
  What holds of the \<open>changed\<close> signal in general: a mousedown whose confirmation
  resolves stores the identifier and the scroll offset and emits the signal exactly once;
  the handler emits it in no other case; the setter of \<open>selection\<close> stores the value
  and requests an update without emitting it; \<open>updateModifiedPlugins\<close> and
  \<open>onUpdateRequest\<close> do not emit it.
\<close>

lemma changed_emitted_by_confirmed_mousedown_only:
  "(mousedown_id (priv_selection s) event = Some i \<and> confirm i = Resolved () \<longrightarrow>
      priv_selection (evtMousedown confirm scrollTop event s) = i
      \<and> priv_scrollTop (evtMousedown confirm scrollTop event s) = scrollTop
      \<and> changed_emitted (evtMousedown confirm scrollTop event s) = changed_emitted s + 1
      \<and> update_posted (evtMousedown confirm scrollTop event s) = update_posted s + 1)
   \<and> (changed_emitted (evtMousedown confirm scrollTop event s) \<noteq> changed_emitted s \<longrightarrow>
        (\<exists>j. mousedown_id (priv_selection s) event = Some j \<and> confirm j = Resolved ()
            \<and> priv_selection (evtMousedown confirm scrollTop event s) = j))
   \<and> priv_selection (set_selection selection s) = selection
   \<and> update_posted (set_selection selection s) = update_posted s + 1
   \<and> changed_emitted (set_selection selection s) = changed_emitted s
   \<and> changed_emitted (snd (snd (updateModifiedPlugins load s))) = changed_emitted s
   \<and> changed_emitted (snd (onUpdateRequest load ul s)) = changed_emitted s"
proof -
  have upd: "changed_emitted (snd (snd (updateModifiedPlugins load s))) = changed_emitted s"
    by (simp add: updateModifiedPlugins_def update_def split: prod.splits promise.splits)
  have req: "changed_emitted (snd (onUpdateRequest load ul s)) = changed_emitted s"
    using upd by (auto simp add: onUpdateRequest_def Let_def split: prod.splits option.splits)
  have click: "changed_emitted (evtMousedown confirm scrollTop event s) \<noteq> changed_emitted s \<longrightarrow>
        (\<exists>j. mousedown_id (priv_selection s) event = Some j \<and> confirm j = Resolved ()
            \<and> priv_selection (evtMousedown confirm scrollTop event s) = j)"
    by (auto simp add: evtMousedown_def update_def split: option.splits promise.splits)
  show ?thesis using upd req click
    by (simp add: evtMousedown_def set_selection_def update_def)
qed


section \<open>Closing and leaving the editors\<close>

lemma onCloseRequest_closes_without_dialog:
  "onCloseRequest showDialog s = Widget_onCloseRequest s"
  by (simp add: onCloseRequest_def PluginList_hasErrors_def)

text \<open>
  C7. A close request is to ask before it closes a panel in which a plugin has an error,
  and \<open>onCloseRequest\<close> has the branch that shows the dialog and closes on an
  accepting answer only. The branch is taken when \<open>this._list.hasErrors\<close> is truthy,
  and the plugin list has no such member: the read is undefined. The editor made for a
  registry closes on a close request without showing a dialog, also where the user would
  decline.
\<close>

theorem close_request_never_asks:
  "\<not> panel_closed (SimpleSettingsEditor_new default (make_registry [plugin_kept] None))
   \<and> PluginList_hasErrors (priv_list (SimpleSettingsEditor_new default (make_registry [plugin_kept] None)))
       = None
   \<and> panel_closed
        (onCloseRequest (answer_with False)
           (SimpleSettingsEditor_new default (make_registry [plugin_kept] None)))
   \<and> dialogs_shown
        (onCloseRequest (answer_with False)
           (SimpleSettingsEditor_new default (make_registry [plugin_kept] None))) = []"
  by (simp add: onCloseRequest_closes_without_dialog Widget_onCloseRequest_def
      SimpleSettingsEditor_new_def PluginList_hasErrors_def)



text \<open>
  C10. In the form-based editor \<open>isDirty\<close> is constantly false. For every plugin
  identifier, \<open>confirm\<close> scrolls the first editor of that plugin into view when there is
  one, shows no dialog and returns a resolved promise, whatever the widget's state and
  whatever the dialog service would answer.
\<close>

theorem form_confirm_always_resolves:
  "form_isDirty e = False
   \<and> form_confirm tr showDialog i e
       = (find (\<lambda>editor. plugin_id editor = i) (editors e), [], Resolved ())"
  by (simp add: form_confirm_def form_isDirty_def)

theorem form_confirm_witness:
  "form_confirm (\<lambda>t. t) (answer_with False) ''b''
      \<lparr>isHidden = False, isAttached = True, editors = [plugin_a, plugin_b]\<rparr>
     = (Some plugin_b, [], Resolved ())"
  using form_confirm_always_resolves [of
      "\<lparr>isHidden = False, isAttached = True, editors = [plugin_a, plugin_b]\<rparr>"
      "\<lambda>t. t" "answer_with False" "''b''"]
  by (simp add: plugin_a_def plugin_b_def make_plugin_def)

section \<open>Which plugins are listed\<close>

lemma keys_of_properties_or_empty:
  "Object_keys (js_or v (Some (JObj []))) = Object_keys v"
proof (cases v)
  case None
  then show ?thesis by (simp add: js_or_def)
next
  case (Some j)
  then show ?thesis by (cases j) (simp_all add: js_or_def)
qed

lemma plugin_filter_iff:
  "plugin_filter p \<longleftrightarrow> \<not> spec_deprecated p \<and> (spec_editable p \<or> spec_extensible p)"
  by (simp add: plugin_filter_def spec_deprecated_def spec_editable_def spec_extensible_def
      keys_of_properties_or_empty Let_def)

lemma set_sortPlugins: "set (sortPlugins localeCompare registry) = snd ` set (plugins registry)"
  by (simp add: sortPlugins_def)

text \<open>
  C3. The plugin list and the form-based editor keep, of the sorted plugins of any
  registry, exactly those that are not marked deprecated and are editable (the schema's
  \<open>properties\<close> have a key) or extensible (\<open>additionalProperties\<close> is not false). No
  deprecated plugin is kept, and no plugin with empty \<open>properties\<close> and
  \<open>additionalProperties: false\<close>.
\<close>

theorem filter_keeps_exactly_usable_plugins:
  "priv_allPlugins (PluginList_new localeCompare registry)
     = filter (\<lambda>p. \<not> spec_deprecated p \<and> (spec_editable p \<or> spec_extensible p))
         (sortPlugins localeCompare registry)
   \<and> editors (PluginEditor_new localeCompare registry)
       = priv_allPlugins (PluginList_new localeCompare registry)
   \<and> set (priv_allPlugins (PluginList_new localeCompare registry))
       = {p \<in> snd ` set (plugins registry).
            \<not> spec_deprecated p \<and> (spec_editable p \<or> spec_extensible p)}
   \<and> (\<forall>p \<in> set (priv_allPlugins (PluginList_new localeCompare registry)). \<not> spec_deprecated p)
   \<and> (\<forall>p \<in> set (priv_allPlugins (PluginList_new localeCompare registry)).
         \<not> (map_of (schema p) ''properties'' = Some (JObj [])
            \<and> map_of (schema p) ''additionalProperties'' = Some (JBool False)))"
proof -
  have kept: "priv_allPlugins (PluginList_new localeCompare registry)
     = filter (\<lambda>p. \<not> spec_deprecated p \<and> (spec_editable p \<or> spec_extensible p))
         (sortPlugins localeCompare registry)"
  proof -
    have "plugin_filter = (\<lambda>p. \<not> spec_deprecated p \<and> (spec_editable p \<or> spec_extensible p))"
      by (rule ext) (simp add: plugin_filter_iff)
    then show ?thesis by (simp add: PluginList_new_def)
  qed
  have same: "editors (PluginEditor_new localeCompare registry)
       = priv_allPlugins (PluginList_new localeCompare registry)"
    by (simp add: PluginList_new_def PluginEditor_new_def)
  have members: "set (priv_allPlugins (PluginList_new localeCompare registry))
       = {p \<in> snd ` set (plugins registry).
            \<not> spec_deprecated p \<and> (spec_editable p \<or> spec_extensible p)}"
    unfolding kept by (simp add: set_sortPlugins)
  have no_deprecated:
    "\<forall>p \<in> set (priv_allPlugins (PluginList_new localeCompare registry)). \<not> spec_deprecated p"
    unfolding members by simp
  have no_closed: "\<forall>p \<in> set (priv_allPlugins (PluginList_new localeCompare registry)).
         \<not> (map_of (schema p) ''properties'' = Some (JObj [])
            \<and> map_of (schema p) ''additionalProperties'' = Some (JBool False))"
    unfolding members by (auto simp add: spec_editable_def spec_extensible_def)
  from kept same members no_deprecated no_closed show ?thesis by blast
qed

lemma example_flags:
  "\<not> spec_deprecated plugin_kept" "spec_editable plugin_kept"
  "spec_deprecated plugin_deprecated"
  "\<not> spec_deprecated plugin_closed" "\<not> spec_editable plugin_closed" "\<not> spec_extensible plugin_closed"
  by (simp_all add: spec_deprecated_def spec_editable_def spec_extensible_def
      plugin_kept_def plugin_deprecated_def plugin_closed_def make_plugin_def)

lemma example_registry_plugins:
  "snd ` set (plugins (make_registry [plugin_deprecated, plugin_kept, plugin_closed] None))
     = {plugin_deprecated, plugin_kept, plugin_closed}"
  by (simp add: make_registry_def)

theorem filter_witness:
  "set (priv_allPlugins
      (PluginList_new default (make_registry [plugin_deprecated, plugin_kept, plugin_closed] None)))
    = {plugin_kept}"
proof -
  have "set (priv_allPlugins
      (PluginList_new default (make_registry [plugin_deprecated, plugin_kept, plugin_closed] None)))
    = {p \<in> {plugin_deprecated, plugin_kept, plugin_closed}.
         \<not> spec_deprecated p \<and> (spec_editable p \<or> spec_extensible p)}"
    using filter_keeps_exactly_usable_plugins
      [of default "make_registry [plugin_deprecated, plugin_kept, plugin_closed] None",
        THEN conjunct2, THEN conjunct2, THEN conjunct1]
    unfolding example_registry_plugins .
  also have "\<dots> = {plugin_kept}"
    using example_flags by blast
  finally show ?thesis .
qed

section \<open>Resolving a hint\<close>

lemma falsy_string_or_empty: "falsy_value v \<Longrightarrow> string_or_empty v = []"
  by (cases v) (auto simp add: string_or_empty_def split: json.splits)

lemma read_default_of_falsy: "falsy_value v \<Longrightarrow> read_default v = Undefined"
  by (cases v rule: read_default.cases) simp_all

lemma registry_default_result:
  "string_or_empty (registry_default name registry)
     = (case schema_properties registry of
          None \<Rightarrow> []
        | Some properties \<Rightarrow>
            if falsy_value (read_default (read_member properties name)) then []
            else string_or_empty (read_default (read_member properties name)))"
proof (cases "schema_properties registry")
  case None
  then show ?thesis by (simp add: registry_default_def string_or_empty_def)
next
  case (Some properties)
  show ?thesis
  proof (cases "falsy_value (read_member properties name)")
    case True
    then show ?thesis
      using Some by (simp add: registry_default_def js_and_def falsy_string_or_empty read_default_of_falsy)
  next
    case False
    then show ?thesis
      using Some by (simp add: registry_default_def js_and_def falsy_string_or_empty)
  qed
qed

lemma getHint_find:
  "getHint name registry plugin
     = (case find (\<lambda>v. \<not> falsy_value v) (hint_candidates name registry plugin) of
          Some hint \<Rightarrow> string_or_empty hint
        | None \<Rightarrow> [])"
proof (cases "schema_properties registry")
  case None
  show ?thesis
    by (cases "falsy_value (read_member (user (data plugin)) name)";
        cases "falsy_value (read_member (composite (data plugin)) name)";
        cases "falsy_value (read_member (schema plugin) name)")
      (simp_all add: getHint_def hint_candidates_def Let_def registry_default_result None)
next
  case (Some properties)
  show ?thesis
    by (cases "falsy_value (read_member (user (data plugin)) name)";
        cases "falsy_value (read_member (composite (data plugin)) name)";
        cases "falsy_value (read_member (schema plugin) name)";
        cases "falsy_value (read_default (read_member properties name))")
      (simp_all add: getHint_def hint_candidates_def Let_def registry_default_result Some)
qed

lemma find_truthy_is_find_string:
  "list_all (\<lambda>v. is_string v \<longleftrightarrow> \<not> falsy_value v) cs \<Longrightarrow>
     find (\<lambda>v. \<not> falsy_value v) cs = find is_string cs"
  by (induction cs) auto

lemma not_string_string_or_empty: "\<not> is_string v \<Longrightarrow> string_or_empty v = []"
  by (cases v) (auto simp add: string_or_empty_def is_string_def split: json.splits)

text \<open>
  C4, as the code has it. For every key, registry and plugin, \<open>getHint\<close> reads the
  user's data, the composite data and the plugin's schema under the key, and the default
  of the property of that name in the registry's schema, in this order, and takes the
  first result that is truthy: not undefined, null, false, 0 or the empty string. A read
  gives the object's own value or, for a key that names a member of
  \<open>Object.prototype\<close>, the inherited function. \<open>getHint\<close> returns the result it
  took when that is a string and the empty string otherwise, also when no result is
  truthy. Hence the hint is the empty string when none of the four is a string, and it is
  the string of highest priority whenever each of the four is either a non-empty string or
  a falsy value that is not a string.
\<close>

theorem getHint_first_truthy_candidate:
  "getHint name registry plugin
     = (case find (\<lambda>v. \<not> falsy_value v) (hint_candidates name registry plugin) of
          Some hint \<Rightarrow> string_or_empty hint
        | None \<Rightarrow> [])
   \<and> (list_all (\<lambda>v. \<not> is_string v) (hint_candidates name registry plugin) \<longrightarrow>
        getHint name registry plugin = [])
   \<and> (list_all (\<lambda>v. is_string v \<longleftrightarrow> \<not> falsy_value v) (hint_candidates name registry plugin) \<longrightarrow>
        getHint name registry plugin = spec_getHint name registry plugin)"
proof -
  let ?cs = "hint_candidates name registry plugin"
  have none: "getHint name registry plugin = []" if "list_all (\<lambda>v. \<not> is_string v) ?cs"
  proof (cases "find (\<lambda>v. \<not> falsy_value v) ?cs")
    case None
    then show ?thesis by (simp add: getHint_find)
  next
    case (Some hint)
    then have "hint \<in> set ?cs"
      by (auto simp add: find_Some_iff)
    with that have "\<not> is_string hint"
      by (simp add: list_all_iff)
    with Some show ?thesis
      by (simp add: getHint_find not_string_string_or_empty)
  qed
  have same: "getHint name registry plugin = spec_getHint name registry plugin"
    if "list_all (\<lambda>v. is_string v \<longleftrightarrow> \<not> falsy_value v) ?cs"
    using find_truthy_is_find_string [OF that] by (simp add: getHint_find spec_getHint_def)
  from none same show ?thesis
    using getHint_find [of name registry plugin] by blast
qed

lemma plugin_hint_candidates:
  "hint_candidates ''jupyter.lab.setting-icon'' registry_hints plugin_hint
     = [Data (JStr []), Data (JStr []), Data (JStr ''schema-icon''), Undefined]"
  "hint_candidates ''toString'' registry_hints plugin_hint = [Native, Native, Native, Undefined]"
  "hint_candidates ''jupyter.lab.setting-icon-label'' registry_hints plugin_hint
     = [Undefined, Undefined, Undefined, Data (JStr ''Settings'')]"
  by (simp_all add: hint_candidates_def registry_hints_def plugin_hint_def make_plugin_def
      make_registry_def read_member_def Object_prototype_def)

lemma plugin_hint_folds: "composite_folds_user plugin_hint" "composite_folds_user plugin_hint_true"
  by (simp_all add: composite_folds_user_def plugin_hint_def plugin_hint_true_def make_plugin_def)

theorem getHint_witness:
  "composite_folds_user plugin_hint
   \<and> getHint ''jupyter.lab.setting-icon'' registry_hints plugin_hint = ''schema-icon''
   \<and> getHint ''toString'' registry_hints plugin_hint = []
   \<and> getHint ''jupyter.lab.setting-icon-label'' registry_hints plugin_hint = ''Settings''
   \<and> spec_getHint ''jupyter.lab.setting-icon-label'' registry_hints plugin_hint = ''Settings''"
proof -
  have spec: "spec_getHint ''jupyter.lab.setting-icon-label'' registry_hints plugin_hint = ''Settings''"
    by (simp add: spec_getHint_def plugin_hint_candidates is_string_def string_or_empty_def)
  show ?thesis
    using getHint_first_truthy_candidate [of "''jupyter.lab.setting-icon''" registry_hints plugin_hint]
      getHint_first_truthy_candidate [of "''toString''" registry_hints plugin_hint]
      getHint_first_truthy_candidate [of "''jupyter.lab.setting-icon-label''" registry_hints plugin_hint]
      plugin_hint_folds(1) spec
    unfolding plugin_hint_candidates by (auto simp add: is_string_def string_or_empty_def)
qed

text \<open>
  The specification's reading, the string of highest priority, fails where the user's value
  is the empty string, which the composite data take over: the code passes both over and
  returns the icon of the schema.
\<close>

theorem getHint_empty_user_string_counterexample:
  "composite_folds_user plugin_hint
   \<and> getHint ''jupyter.lab.setting-icon'' registry_hints plugin_hint = ''schema-icon''
   \<and> spec_getHint ''jupyter.lab.setting-icon'' registry_hints plugin_hint = []
   \<and> getHint ''jupyter.lab.setting-icon'' registry_hints plugin_hint
       \<noteq> spec_getHint ''jupyter.lab.setting-icon'' registry_hints plugin_hint"
  using plugin_hint_folds(1)
  by (simp add: getHint_find spec_getHint_def plugin_hint_candidates is_string_def string_or_empty_def)

text \<open>
  It also fails where the user's value is truthy and not a string: the code stops at it and
  returns the empty string.
\<close>

lemma getHint_truthy_non_string_hides_lower_string:
  "composite_folds_user plugin_hint_true
   \<and> getHint ''jupyter.lab.setting-icon'' registry_hints plugin_hint_true = []
   \<and> spec_getHint ''jupyter.lab.setting-icon'' registry_hints plugin_hint_true = ''schema-icon''"
proof -
  have "hint_candidates ''jupyter.lab.setting-icon'' registry_hints plugin_hint_true
     = [Data (JBool True), Data (JBool True), Data (JStr ''schema-icon''), Undefined]"
    by (simp add: hint_candidates_def registry_hints_def plugin_hint_true_def make_plugin_def
        make_registry_def read_member_def Object_prototype_def)
  then show ?thesis
    using plugin_hint_folds(2)
    by (simp add: getHint_find spec_getHint_def is_string_def string_or_empty_def)
qed

section \<open>The order of the plugins\<close>

lemma insort_key_cong:
  assumes "f x = g x" and "\<forall>y \<in> set ys. f y = g y"
  shows "insort (key f c) x ys = insort (key g c) x ys"
  using assms by (induction ys) simp_all

lemma sort_key_cong:
  assumes "\<forall>y \<in> set xs. f y = g y"
  shows "Sorting_Algorithms.sort (key f c) xs = Sorting_Algorithms.sort (key g c) xs"
  using assms
proof (induction xs)
  case Nil
  then show ?case by simp
next
  case (Cons x xs)
  then have "Sorting_Algorithms.sort (key f c) xs = Sorting_Algorithms.sort (key g c) xs"
    by simp
  moreover have "\<forall>y \<in> set (Sorting_Algorithms.sort (key g c) xs). f y = g y"
    using Cons.prems by simp
  ultimately show ?case
    using Cons.prems insort_key_cong [of f x g "Sorting_Algorithms.sort (key g c) xs" c] by simp
qed

lemma title_or_id_typed:
  "typed_title p \<Longrightarrow>
     title_or_id p = (case map_of (schema p) ''title'' of
                        Some (JStr t) \<Rightarrow> if t = [] then plugin_id p else t
                      | v \<Rightarrow> plugin_id p)"
  by (auto simp add: typed_title_def title_or_id_def js_or_def split: option.splits json.splits)

lemma title_or_id_spec:
  "typed_title p \<Longrightarrow> map_of (schema p) ''title'' \<noteq> Some (JStr []) \<Longrightarrow> title_or_id p = spec_sort_key p"
  by (auto simp add: typed_title_def title_or_id_def spec_sort_key_def js_or_def
      split: option.splits json.splits)

text \<open>
  C8, as the code has it. For every registry whose titles are strings or missing,
  \<open>sortPlugins\<close> returns the registry's plugins (each as often as the registry has
  it), sorted by the locale's comparison on the key \<open>title || id\<close>, and stably: plugins
  with equivalent keys keep the order the registry lists them in. The key is the schema's
  title when that is a non-empty string and the plugin's identifier otherwise, also for the
  empty title. When no title is empty, this is the sort on \<open>title ?? id\<close>.
\<close>

theorem sortPlugins_stable_by_title_or_id:
  assumes "list_all typed_title (map snd (plugins registry))"
  shows "Sorting_Algorithms.sorted (key title_or_id localeCompare) (sortPlugins localeCompare registry)
    \<and> mset (sortPlugins localeCompare registry) = mset (map snd (plugins registry))
    \<and> (\<forall>p. stable_segment (key title_or_id localeCompare) p (sortPlugins localeCompare registry)
            = stable_segment (key title_or_id localeCompare) p (map snd (plugins registry)))
    \<and> (\<forall>p \<in> set (sortPlugins localeCompare registry).
          title_or_id p = (case map_of (schema p) ''title'' of
                             Some (JStr t) \<Rightarrow> if t = [] then plugin_id p else t
                           | v \<Rightarrow> plugin_id p))
    \<and> (list_all (\<lambda>p. map_of (schema p) ''title'' \<noteq> Some (JStr [])) (map snd (plugins registry)) \<longrightarrow>
          sortPlugins localeCompare registry
            = Sorting_Algorithms.sort (key spec_sort_key localeCompare) (map snd (plugins registry)))"
proof -
  let ?ps = "map snd (plugins registry)"
  have keys: "\<forall>p \<in> set (sortPlugins localeCompare registry).
          title_or_id p = (case map_of (schema p) ''title'' of
                             Some (JStr t) \<Rightarrow> if t = [] then plugin_id p else t
                           | v \<Rightarrow> plugin_id p)"
    using assms by (simp add: sortPlugins_def list_all_iff title_or_id_typed)
  have spec: "sortPlugins localeCompare registry
            = Sorting_Algorithms.sort (key spec_sort_key localeCompare) ?ps"
    if "list_all (\<lambda>p. map_of (schema p) ''title'' \<noteq> Some (JStr [])) ?ps"
  proof -
    have "\<forall>p \<in> set ?ps. title_or_id p = spec_sort_key p"
      using assms that by (simp add: list_all_iff title_or_id_spec)
    then show ?thesis
      unfolding sortPlugins_def by (rule sort_key_cong)
  qed
  have sorted: "Sorting_Algorithms.sorted (key title_or_id localeCompare) (sortPlugins localeCompare registry)"
    by (simp add: sortPlugins_def)
  have perm: "mset (sortPlugins localeCompare registry) = mset ?ps"
    by (simp add: sortPlugins_def)
  have stable: "\<forall>p. stable_segment (key title_or_id localeCompare) p (sortPlugins localeCompare registry)
            = stable_segment (key title_or_id localeCompare) p ?ps"
    unfolding sortPlugins_def by (simp only: stable_sort) simp
  from sorted perm stable keys spec show ?thesis by blast
qed

theorem sortPlugins_witness:
  "list_all typed_title (map snd (plugins (make_registry [plugin_b, plugin_a] None)))
   \<and> Sorting_Algorithms.sorted (key title_or_id default)
        (sortPlugins default (make_registry [plugin_b, plugin_a] None))
   \<and> mset (sortPlugins default (make_registry [plugin_b, plugin_a] None)) = mset [plugin_b, plugin_a]"
proof -
  have r: "map snd (plugins (make_registry [plugin_b, plugin_a] None)) = [plugin_b, plugin_a]"
    by (simp add: make_registry_def)
  have h: "list_all typed_title (map snd (plugins (make_registry [plugin_b, plugin_a] None)))"
    unfolding r by (simp add: typed_title_def plugin_a_def plugin_b_def make_plugin_def)
  note t = sortPlugins_stable_by_title_or_id [OF h, of default]
  from t have s: "Sorting_Algorithms.sorted (key title_or_id default)
        (sortPlugins default (make_registry [plugin_b, plugin_a] None))"
    by (rule conjunct1)
  from t have m: "mset (sortPlugins default (make_registry [plugin_b, plugin_a] None))
      = mset (map snd (plugins (make_registry [plugin_b, plugin_a] None)))"
    by (rule conjunct2 [THEN conjunct1])
  from h s m show ?thesis
    unfolding r by (intro conjI)
qed

lemma sort_b_a:
  "sortPlugins default (make_registry [plugin_b, plugin_a] None) = [plugin_a, plugin_b]"
  by (simp add: sortPlugins_def make_registry_def title_or_id_def js_or_def plugin_a_def plugin_b_def
      make_plugin_def)

text \<open>
  With the key \<open>title ?? id\<close> of the specification the plugin with the empty title
  comes first; the code sorts it by its identifier, behind the other.
\<close>

theorem sortPlugins_empty_title_counterexample:
  "sortPlugins default (make_registry [plugin_b, plugin_a] None) = [plugin_a, plugin_b]
   \<and> \<not> Sorting_Algorithms.sorted (key spec_sort_key default)
        (sortPlugins default (make_registry [plugin_b, plugin_a] None))
   \<and> Sorting_Algorithms.sort (key spec_sort_key default) (map snd (plugins (make_registry [plugin_b, plugin_a] None)))
       = [plugin_b, plugin_a]"
  unfolding sort_b_a
  by (simp add: make_registry_def spec_sort_key_def plugin_a_def plugin_b_def make_plugin_def)

section \<open>The modified plugins\<close>


lemma load_modified_stops_at_rejection:
  assumes "list_all (\<lambda>p. is_resolved (load (plugin_id p))) before"
    and "load (plugin_id p) = Rejected reason"
  shows "load_modified load (before @ p # after) acc loaded
    = (Rejected reason, loaded @ map plugin_id before @ [plugin_id p])"
  using assms(1)
proof (induction before arbitrary: acc loaded)
  case Nil
  then show ?case using assms(2) by simp
next
  case (Cons q qs)
  then obtain st where st: "load (plugin_id q) = Resolved st"
    by (cases "load (plugin_id q)") (simp_all add: is_resolved_def)
  from Cons.prems have rest: "list_all (\<lambda>p. is_resolved (load (plugin_id p))) qs"
    by simp
  show ?case
    using st Cons.IH [OF rest] by simp
qed







lemma modified_by_id_new: "modified_by_id (PluginList_new localeCompare registry)"
  by (simp add: modified_by_id_def PluginList_new_def)


lemma onUpdateRequest_fields:
  "priv_modifiedPlugins (snd (onUpdateRequest load ul s))
      = priv_modifiedPlugins (snd (snd (updateModifiedPlugins load s)))"
  "priv_allPlugins (snd (onUpdateRequest load ul s))
      = priv_allPlugins (snd (snd (updateModifiedPlugins load s)))"
  "fst (onUpdateRequest load ul s) = fst (snd (updateModifiedPlugins load s))"
  by (simp_all add: onUpdateRequest_def Let_def split: prod.splits option.splits)


lemma modified_by_id_evtMousedown:
  "modified_by_id s \<Longrightarrow> modified_by_id (evtMousedown confirm scrollTop event s)"
  by (simp add: modified_by_id_def evtMousedown_def update_def split: option.splits promise.splits)

lemma modified_by_id_set_selection:
  "modified_by_id s \<Longrightarrow> modified_by_id (set_selection selection s)"
  by (simp add: modified_by_id_def set_selection_def update_def)







text \<open>
  C6, as the code has it. \<open>updateModifiedPlugins\<close> has no handler for a load that
  rejects: it ends at that plugin with the same rejection, having asked for no plugin
  behind it, and leaves the plugin list as it was, \<open>_modifiedPlugins\<close> included.
  \<open>onUpdateRequest\<close> drops the rejected promise, requests no further update and
  renders.
\<close>

theorem rejected_load_ends_the_computation:
  assumes "priv_allPlugins s = before @ p # after"
    and "list_all (\<lambda>q. is_resolved (load (plugin_id q))) before"
    and "load (plugin_id p) = Rejected reason"
  shows "updateModifiedPlugins load s = (Rejected reason, map plugin_id before @ [plugin_id p], s)
    \<and> fst (onUpdateRequest load ul s) = map plugin_id before @ [plugin_id p]
    \<and> priv_modifiedPlugins (snd (onUpdateRequest load ul s)) = priv_modifiedPlugins s
    \<and> update_posted (snd (onUpdateRequest load ul s)) = update_posted s
    \<and> rendered (snd (onUpdateRequest load ul s)) = rendered s + 1"
proof -
  have run: "updateModifiedPlugins load s = (Rejected reason, map plugin_id before @ [plugin_id p], s)"
    using load_modified_stops_at_rejection [OF assms(2,3), of "after" "[]" "[]"]
    by (simp add: updateModifiedPlugins_def assms(1))
  then show ?thesis
    by (simp add: onUpdateRequest_def Let_def split: option.splits)
qed

theorem rejected_load_witness:
  "priv_allPlugins list_ab = [] @ plugin_a # [plugin_b]
   \<and> load_a_fails (plugin_id plugin_a) = Rejected ''no such plugin''
   \<and> updateModifiedPlugins load_a_fails list_ab = (Rejected ''no such plugin'', [''a''], list_ab)"
proof -
  have ids: "plugin_id plugin_a = ''a''"
    by (simp add: plugin_a_def make_plugin_def)
  have all: "priv_allPlugins list_ab = [] @ plugin_a # [plugin_b]"
    by (simp add: list_ab_def)
  have rej: "load_a_fails (plugin_id plugin_a) = Rejected ''no such plugin''"
    by (simp add: ids load_a_fails_def)
  have none: "list_all (\<lambda>q. is_resolved (load_a_fails (plugin_id q))) []"
    by simp
  show ?thesis
    using all rej rejected_load_ends_the_computation [OF all none rej, of True]
    by (simp add: ids)
qed

text \<open>
  The registry rejects the load of \<open>a\<close> and reports \<open>b\<close> as modified. Were the
  failure caught and \<open>a\<close> taken as absent, the modified plugins would be \<open>b\<close>
  alone; the code returns the rejection, never asks for \<open>b\<close> and leaves the modified
  plugins empty.
\<close>

theorem rejected_load_counterexample:
  "updateModifiedPlugins load_a_fails list_ab = (Rejected ''no such plugin'', [''a''], list_ab)
   \<and> priv_modifiedPlugins (snd (onUpdateRequest load_a_fails True list_ab)) = []
   \<and> filter (\<lambda>p. reports_modified (load_a_fails (plugin_id p))) (priv_allPlugins list_ab) = [plugin_b]
   \<and> priv_modifiedPlugins (snd (onUpdateRequest load_a_fails True list_ab))
       \<noteq> filter (\<lambda>p. reports_modified (load_a_fails (plugin_id p))) (priv_allPlugins list_ab)"
proof -
  have ids: "plugin_id plugin_a = ''a''" "plugin_id plugin_b = ''b''"
    by (simp_all add: plugin_a_def plugin_b_def make_plugin_def)
  have all: "priv_allPlugins list_ab = [plugin_a, plugin_b]"
    by (simp add: list_ab_def)
  have run: "updateModifiedPlugins load_a_fails list_ab = (Rejected ''no such plugin'', [''a''], list_ab)"
    by (simp add: updateModifiedPlugins_def all ids load_a_fails_def)
  have "priv_modifiedPlugins list_ab = []"
    by (simp add: list_ab_def)
  then have req: "priv_modifiedPlugins (snd (onUpdateRequest load_a_fails True list_ab)) = []"
    by (simp add: onUpdateRequest_fields run)
  have claim: "filter (\<lambda>p. reports_modified (load_a_fails (plugin_id p))) (priv_allPlugins list_ab) = [plugin_b]"
    unfolding all by (simp add: ids reports_modified_def load_a_fails_def)
  from run req claim show ?thesis by simp
qed

end
